theory Spec2Isabelle
  imports Complex_Main "HOL-Library.AList" "HOL-Library.Log_Nat"
begin


section \<open>Python values and builtins used by the order-book builder\<close>

text \<open>
  \<^verbatim>\<open>build_level2_simple\<close> reads its input with \<^verbatim>\<open>csv.DictReader\<close>. A row is a
  dictionary from column names to cells; a cell is a text, or \<^verbatim>\<open>None\<close> when the line
  has fewer fields than the header. A column that the header does not have is a key
  that the row does not have.
\<close>

datatype pyval = PyNone | PyStr string

type_synonym row = "string \<Rightarrow> pyval option"

text \<open>\<^verbatim>\<open>row.get(k, d)\<close>; \<^verbatim>\<open>row.get(k)\<close> is \<^verbatim>\<open>row.get(k, None)\<close>.\<close>

definition row_get :: "row \<Rightarrow> string \<Rightarrow> pyval \<Rightarrow> pyval" where
  "row_get r k d = (case r k of None \<Rightarrow> d | Some v \<Rightarrow> v)"

text \<open>Truth value of a cell in a condition: \<^verbatim>\<open>None\<close> and the empty text are false.\<close>

fun truthy :: "pyval \<Rightarrow> bool" where
  "truthy PyNone = False"
| "truthy (PyStr s) = (s \<noteq> [])"

text \<open>
  The builtins \<^verbatim>\<open>int\<close>, \<^verbatim>\<open>float\<close> and \<^verbatim>\<open>str.strip\<close> are not code of the
  repository. They are parameters of the model: \<open>py_int s = None\<close> and
  \<open>py_float s = None\<close> stand for the \<^verbatim>\<open>ValueError\<close> that the builtin raises on
  the text \<open>s\<close>. A price is the rational number that the finite float denotes
  (the texts \<^verbatim>\<open>inf\<close> and \<^verbatim>\<open>nan\<close> that \<^verbatim>\<open>float\<close> also accepts are outside the
  model).
\<close>

record builtins =
  py_int :: "string \<Rightarrow> int option"
  py_float :: "string \<Rightarrow> rat option"
  py_strip :: "string \<Rightarrow> string"

text \<open>
  The exceptions that the loop body does not catch: they end the run. The
  \<^verbatim>\<open>ValueError\<close> of a conversion is always caught by the \<^verbatim>\<open>try\<close> around it and
  appears as the result \<open>None\<close> of the conversion.
\<close>

datatype py_error = AttributeError | KeyError

text \<open>\<^verbatim>\<open>v.strip()\<close>: \<^verbatim>\<open>None\<close> has no such method.\<close>

fun strip :: "builtins \<Rightarrow> pyval \<Rightarrow> py_error + string" where
  "strip B PyNone = Inl AttributeError"
| "strip B (PyStr s) = Inr (py_strip B s)"

text \<open>\<^verbatim>\<open>int(v) if v else d\<close> and \<^verbatim>\<open>float(v) if v else d\<close>.\<close>

definition int_if :: "builtins \<Rightarrow> pyval \<Rightarrow> int \<Rightarrow> int option" where
  "int_if B v d = (case v of PyStr s \<Rightarrow> if s \<noteq> [] then py_int B s else Some d | PyNone \<Rightarrow> Some d)"

definition float_if :: "builtins \<Rightarrow> pyval \<Rightarrow> rat \<Rightarrow> rat option" where
  "float_if B v d = (case v of PyStr s \<Rightarrow> if s \<noteq> [] then py_float B s else Some d | PyNone \<Rightarrow> Some d)"

section \<open>The order store\<close>

text \<open>
  \<^verbatim>\<open>orders\<close> is a dictionary from order id to a dictionary with the keys
  \<^verbatim>\<open>symbol\<close>, \<^verbatim>\<open>side\<close>, \<^verbatim>\<open>price\<close>, \<^verbatim>\<open>qty\<close>, \<^verbatim>\<open>timestamp\<close>. A Python
  dictionary keeps insertion order: it is an association list, where assignment
  replaces the value of a key in place or appends a new key (\<open>AList.update\<close>) and
  \<^verbatim>\<open>del\<close> removes the key (\<open>AList.delete\<close>). An order id is a cell, since the
  replace branch stores under \<^verbatim>\<open>row.get('order_id')\<close> without a check.
\<close>

record order =
  symbol :: string
  side :: string
  price :: rat
  qty :: int
  timestamp :: int

type_synonym order_store = "(pyval \<times> order) list"

text \<open>Type A, lines 36-54. The two \<^verbatim>\<open>strip\<close> calls are outside the \<^verbatim>\<open>try\<close>.\<close>

definition add_order :: "builtins \<Rightarrow> row \<Rightarrow> order_store \<Rightarrow> py_error + order_store" where
  "add_order B r os =
    (let order_id = row_get r ''order_id'' PyNone in
     case strip B (row_get r ''symbol'' (PyStr '''')) of
       Inl e \<Rightarrow> Inl e
     | Inr symbol_str \<Rightarrow>
      (case strip B (row_get r ''side'' (PyStr ''B'')) of
         Inl e \<Rightarrow> Inl e
       | Inr side_str \<Rightarrow>
          (let price_str = row_get r ''price'' (PyStr ''0'');
               qty_str = row_get r ''quantity'' (PyStr ''0'');
               ts = row_get r ''timestamp'' (row_get r ''seconds'' (PyStr ''0''))
           in Inr (if truthy order_id \<and> symbol_str \<noteq> [] then
                (case float_if B price_str 0 of
                   None \<Rightarrow> os
                 | Some p \<Rightarrow>
                    (case int_if B qty_str 0 of
                       None \<Rightarrow> os
                     | Some q \<Rightarrow>
                        (case int_if B ts 0 of
                           None \<Rightarrow> os
                         | Some t \<Rightarrow>
                            AList.update order_id
                              \<lparr>symbol = symbol_str, side = side_str, price = p, qty = q, timestamp = t\<rparr> os)))
              else os))))"

text \<open>Type e, lines 57-68.\<close>

definition execute_order :: "builtins \<Rightarrow> row \<Rightarrow> order_store \<Rightarrow> order_store" where
  "execute_order B r os =
    (let order_id = row_get r ''order_id'' PyNone;
         exec_qty_str = row_get r ''quantity'' (PyStr ''0'')
     in case map_of os order_id of
          None \<Rightarrow> os
        | Some ord \<Rightarrow>
           (case int_if B exec_qty_str 0 of
              None \<Rightarrow> os
            | Some exec_qty \<Rightarrow>
               (let ord' = ord\<lparr>qty := qty ord - exec_qty\<rparr>;
                    os' = AList.update order_id ord' os
                in if qty ord' \<le> 0 then AList.delete order_id os' else os')))"

text \<open>Type D, lines 71-74.\<close>

definition delete_order :: "row \<Rightarrow> order_store \<Rightarrow> order_store" where
  "delete_order r os =
    (let order_id = row_get r ''order_id'' PyNone
     in if truthy order_id \<and> map_of os order_id \<noteq> None then AList.delete order_id os else os)"

text \<open>
  Type U, lines 77-96. The old order is deleted first; the conversions of the new
  price and quantity come after it, inside the same \<^verbatim>\<open>try\<close>, so a \<^verbatim>\<open>ValueError\<close>
  leaves the store with the deletion done.
\<close>

definition replace_order :: "builtins \<Rightarrow> row \<Rightarrow> order_store \<Rightarrow> order_store" where
  "replace_order B r os =
    (let old_id = row_get r ''old_order_id'' PyNone;
         new_id = row_get r ''order_id'' PyNone;
         new_qty_str = row_get r ''quantity'' (PyStr ''0'');
         new_price_str = row_get r ''price'' (PyStr ''0'')
     in case map_of os old_id of
          None \<Rightarrow> os
        | Some old_order \<Rightarrow>
           (let os' = AList.delete old_id os
            in case (case new_price_str of
                       PyStr s \<Rightarrow>
                         if s \<noteq> [] \<and> s \<noteq> ''0'' then py_float B s
                         else Some (price old_order)
                     | PyNone \<Rightarrow> Some (price old_order)) of
                 None \<Rightarrow> os'
               | Some p \<Rightarrow>
                  (case int_if B new_qty_str (qty old_order) of
                     None \<Rightarrow> os'
                   | Some q \<Rightarrow>
                      AList.update new_id
                        \<lparr>symbol = symbol old_order, side = side old_order, price = p,
                         qty = q, timestamp = timestamp old_order\<rparr> os')))"

section \<open>Level 2 snapshots\<close>

text \<open>
  Type T, lines 99-126. \<^verbatim>\<open>tickers\<close> is a \<^verbatim>\<open>defaultdict\<close> from symbol to the two
  dictionaries \<^verbatim>\<open>bids\<close> and \<^verbatim>\<open>asks\<close> from price to summed quantity.
\<close>

record levels =
  bids :: "(rat \<times> int) list"
  asks :: "(rat \<times> int) list"

text \<open>\<^verbatim>\<open>d.get(k, v)\<close>, also the read of a \<^verbatim>\<open>defaultdict\<close> with default \<open>v\<close>.\<close>

definition dict_get :: "('k \<times> 'v) list \<Rightarrow> 'k \<Rightarrow> 'v \<Rightarrow> 'v" where
  "dict_get d k v = (case map_of d k of None \<Rightarrow> v | Some x \<Rightarrow> x)"

text \<open>The body of the loop over \<^verbatim>\<open>orders.items()\<close>, lines 105-112.\<close>

definition group_order :: "(string \<times> levels) list \<Rightarrow> order \<Rightarrow> (string \<times> levels) list" where
  "group_order tickers ord =
    (let ticker = symbol ord; p = price ord; q = qty ord;
         lv = dict_get tickers ticker \<lparr>bids = [], asks = []\<rparr>
     in AList.update ticker
          (if side ord = ''B''
           then lv\<lparr>bids := AList.update p (dict_get (bids lv) p 0 + q) (bids lv)\<rparr>
           else lv\<lparr>asks := AList.update p (dict_get (asks lv) p 0 + q) (asks lv)\<rparr>)
          tickers)"

definition group_orders :: "order_store \<Rightarrow> (string \<times> levels) list" where
  "group_orders os = foldl group_order [] (map snd os)"

text \<open>
  \<^verbatim>\<open>sorted(keys, reverse=True)\<close>. The keys of a dictionary are distinct, so the
  stable descending sort is the reversed ascending sort.
\<close>

definition sorted_reverse :: "rat list \<Rightarrow> rat list" where
  "sorted_reverse ps = rev (sort ps)"

text \<open>
  The comprehension \<^verbatim>\<open>{ps[i]: d[ps[i]] for i in range(len(ps))}\<close>, filled from left
  to right into \<open>acc\<close>; \<^verbatim>\<open>d[p]\<close> raises \<^verbatim>\<open>KeyError\<close> on a missing key.
\<close>

fun dict_comp :: "(rat \<times> int) list \<Rightarrow> rat list \<Rightarrow> (rat \<times> int) list \<Rightarrow> py_error + (rat \<times> int) list" where
  "dict_comp d [] acc = Inr acc"
| "dict_comp d (p # ps) acc =
    (case map_of d p of
       None \<Rightarrow> Inl KeyError
     | Some q \<Rightarrow> dict_comp d ps (AList.update p q acc))"

record snapshot =
  snap_timestamp :: pyval
  snap_bids :: "(rat \<times> int) list"
  snap_asks :: "(rat \<times> int) list"

text \<open>Lines 116-126 for one symbol: the five best prices of each side.\<close>

definition level_snapshot :: "pyval \<Rightarrow> levels \<Rightarrow> py_error + snapshot" where
  "level_snapshot ts lv =
    (let bid_prices = take 5 (sorted_reverse (map fst (bids lv)));
         ask_prices = take 5 (sort (map fst (asks lv)))
     in case dict_comp (bids lv) bid_prices [] of
          Inl e \<Rightarrow> Inl e
        | Inr bid_data \<Rightarrow>
           (case dict_comp (asks lv) ask_prices [] of
              Inl e \<Rightarrow> Inl e
            | Inr ask_data \<Rightarrow>
                Inr \<lparr>snap_timestamp = ts, snap_bids = bid_data, snap_asks = ask_data\<rparr>))"

text \<open>The loop over \<^verbatim>\<open>tickers.items()\<close>, appending to \<^verbatim>\<open>snapshots_by_ticker\<close>.\<close>

fun store_snapshots ::
  "pyval \<Rightarrow> (string \<times> levels) list \<Rightarrow> (string \<times> snapshot list) list
    \<Rightarrow> py_error + (string \<times> snapshot list) list" where
  "store_snapshots ts [] sbt = Inr sbt"
| "store_snapshots ts ((ticker, lv) # rest) sbt =
    (case level_snapshot ts lv of
       Inl e \<Rightarrow> Inl e
     | Inr snap \<Rightarrow>
         store_snapshots ts rest (AList.update ticker (dict_get sbt ticker [] @ [snap]) sbt))"

section \<open>The loop over the rows\<close>

record state =
  orders :: order_store
  snapshots_by_ticker :: "(string \<times> snapshot list) list"
  msg_count :: nat

text \<open>
  One iteration of the loop of \<^verbatim>\<open>build_level2_simple\<close>, lines 28-126 (the progress
  message is not modelled). \<open>Inl\<close> is an exception that no \<^verbatim>\<open>try\<close> catches.
\<close>

definition process_row :: "builtins \<Rightarrow> state \<Rightarrow> row \<Rightarrow> py_error + state" where
  "process_row B st r =
    (let st1 = st\<lparr>msg_count := msg_count st + 1\<rparr>;
         msg_type = row_get r ''message_type'' PyNone
     in if msg_type = PyStr ''A'' then
          (case add_order B r (orders st1) of
             Inl e \<Rightarrow> Inl e
           | Inr os \<Rightarrow> Inr (st1\<lparr>orders := os\<rparr>))
        else if msg_type = PyStr ''e'' then
          Inr (st1\<lparr>orders := execute_order B r (orders st1)\<rparr>)
        else if msg_type = PyStr ''D'' then
          Inr (st1\<lparr>orders := delete_order r (orders st1)\<rparr>)
        else if msg_type = PyStr ''U'' then
          Inr (st1\<lparr>orders := replace_order B r (orders st1)\<rparr>)
        else if msg_type = PyStr ''T'' then
          (case store_snapshots (row_get r ''seconds'' (PyStr ''0''))
                  (group_orders (orders st1)) (snapshots_by_ticker st1) of
             Inl e \<Rightarrow> Inl e
           | Inr sbt \<Rightarrow> Inr (st1\<lparr>snapshots_by_ticker := sbt\<rparr>))
        else Inr st1)"

fun process_rows :: "builtins \<Rightarrow> state \<Rightarrow> row list \<Rightarrow> py_error + state" where
  "process_rows B st [] = Inr st"
| "process_rows B st (r # rs) =
    (case process_row B st r of
       Inl e \<Rightarrow> Inl e
     | Inr st' \<Rightarrow> process_rows B st' rs)"

text \<open>
  The state after the reading loop, from the empty store. Writing the snapshots to
  the output file is the work of the sink and is not modelled.
\<close>

definition build_level2_simple :: "builtins \<Rightarrow> row list \<Rightarrow> py_error + state" where
  "build_level2_simple B rows =
    process_rows B \<lparr>orders = [], snapshots_by_ticker = [], msg_count = 0\<rparr> rows"

section \<open>Builtins for the examples\<close>

text \<open>
  The examples below run the model on concrete rows. They use the values of
  \<^verbatim>\<open>int\<close> and \<^verbatim>\<open>float\<close> on the texts that occur in them (each float is exact);
  \<^verbatim>\<open>abc\<close> and every other text stand for a malformed number. The texts of the
  examples have no surrounding white space, so \<^verbatim>\<open>strip\<close> returns them as they are.
\<close>

definition example_builtins :: builtins where
  "example_builtins =
    \<lparr>py_int = map_of [(''0'', 0), (''40'', 40), (''50'', 50), (''60'', 60), (''100'', 100),
                       (''200'', 200), (''-5'', -5)],
     py_float = map_of [(''0'', 0), (''9.5'', 19 / 2), (''9.75'', 39 / 4), (''10.00'', 10),
                         (''10.25'', 41 / 4), (''10.5'', 21 / 2), (''10.75'', 43 / 4),
                         (''11.00'', 11), (''11.5'', 23 / 2)],
     py_strip = (\<lambda>s. s)\<rparr>"

text \<open>A row from the list of its cells.\<close>

definition mk_row :: "(string \<times> string) list \<Rightarrow> row" where
  "mk_row cells = map_of (map (\<lambda>(k, v). (k, PyStr v)) cells)"

section \<open>The message decoders\<close>

text \<open>
  \<^verbatim>\<open>message_type_decoders.py\<close>. A \<^verbatim>\<open>bytes\<close> object is a list of 8-bit characters:
  the integer \<^verbatim>\<open>b[i]\<close> is \<open>of_char\<close> of the character, and \<^verbatim>\<open>chr\<close> of a byte below
  128 is the character itself. A Python \<^verbatim>\<open>str\<close> is the list of the characters of
  its UTF-8 encoding.
\<close>

type_synonym bytes = "char list"


text \<open>\<^verbatim>\<open>int.from_bytes(b, 'big', signed=False)\<close>.\<close>

definition from_bytes_big :: "bytes \<Rightarrow> int" where
  "from_bytes_big b = foldl (\<lambda>a c. 256 * a + of_char c) 0 b"

text \<open>
  The exceptions of the decoders: \<^verbatim>\<open>struct.error\<close> of \<^verbatim>\<open>struct.unpack\<close> on a
  buffer that is not 4 bytes long, and \<^verbatim>\<open>OverflowError\<close> of a division whose result
  is too large for a float.
\<close>

datatype decode_error = StructError | OverflowError

text \<open>\<^verbatim>\<open>struct.unpack('>I', b)[0]\<close> and \<^verbatim>\<open>struct.unpack('>i', b)[0]\<close>.\<close>

definition unpack_I :: "bytes \<Rightarrow> decode_error + int" where
  "unpack_I b = (if length b = 4 then Inr (from_bytes_big b) else Inl StructError)"






text \<open>The values that the decoders store in a record.\<close>

datatype pyobj = ONone | OInt int | OFloat rat | OStr string | OBytes bytes



definition decode_qty :: "bytes \<Rightarrow> pyobj" where
  "decode_qty data =
    (if length data < 4 then ONone
     else case unpack_I (take 4 data) of Inl e \<Rightarrow> ONone | Inr v \<Rightarrow> OInt v)"























section \<open>Predicates of the theorems\<close>

text \<open>
  A row of type e for the order \<open>k\<close> whose executed quantity is \<open>n\<close>: the value of
  \<^verbatim>\<open>int(exec_qty_str) if exec_qty_str else 0\<close>.
\<close>

definition is_execute :: "builtins \<Rightarrow> pyval \<Rightarrow> row \<Rightarrow> int \<Rightarrow> bool" where
  "is_execute B k r n \<longleftrightarrow>
     row_get r ''message_type'' PyNone = PyStr ''e'' \<and> row_get r ''order_id'' PyNone = k
     \<and> int_if B (row_get r ''quantity'' (PyStr ''0'')) 0 = Some n"

text \<open>Every order of the store has a quantity above zero.\<close>

definition quantities_positive :: "order_store \<Rightarrow> bool" where
  "quantities_positive os \<longleftrightarrow> (\<forall>ord \<in> snd ` set os. 0 < qty ord)"

text \<open>
  A row that cannot bring a quantity of zero or less into the store: an add whose
  quantity, when it converts, is positive (an empty quantity cell counts as 0), and a
  replace whose non-empty quantity cell, when it converts, is positive.
\<close>

definition quantity_positive_row :: "builtins \<Rightarrow> row \<Rightarrow> bool" where
  "quantity_positive_row B r \<longleftrightarrow>
     (row_get r ''message_type'' PyNone = PyStr ''A'' \<longrightarrow>
        (\<forall>n. int_if B (row_get r ''quantity'' (PyStr ''0'')) 0 = Some n \<longrightarrow> 0 < n))
   \<and> (row_get r ''message_type'' PyNone = PyStr ''U'' \<longrightarrow>
        (\<forall>s n. row_get r ''quantity'' (PyStr ''0'') = PyStr s \<and> s \<noteq> [] \<and> py_int B s = Some n \<longrightarrow> 0 < n))"





section \<open>The order store: delete, replace and add\<close>

lemma delete_order_twice: "delete_order r (delete_order r os) = delete_order r os"
  by (auto simp add: delete_order_def Let_def delete_conv)

lemma delete_order_absent:
  "map_of os (row_get r ''order_id'' PyNone) = None \<Longrightarrow> delete_order r os = os"
  by (simp add: delete_order_def Let_def)

text \<open>
  Claim C9. A row of type D never raises; processing it a second time leaves the
  order store as the first time left it, and a delete of an id that the store does
  not have leaves the store as it is.
\<close>

theorem delete_idempotent:
  assumes "row_get r ''message_type'' PyNone = PyStr ''D''"
  shows "\<exists>st1 st2. process_row B st r = Inr st1 \<and> process_row B st1 r = Inr st2
           \<and> orders st2 = orders st1
           \<and> (map_of (orders st) (row_get r ''order_id'' PyNone) = None \<longrightarrow> orders st1 = orders st)"
  using assms
  by (simp add: process_row_def Let_def delete_order_twice delete_order_absent)

theorem delete_idempotent_witness:
  "row_get (mk_row [(''message_type'', ''D''), (''order_id'', ''1'')]) ''message_type'' PyNone = PyStr ''D''
   \<and> (\<exists>st1 st2.
        process_row example_builtins
          \<lparr>orders = [(PyStr ''1'', \<lparr>symbol = ''ABC'', side = ''B'', price = 10, qty = 100, timestamp = 0\<rparr>)],
           snapshots_by_ticker = [], msg_count = 0\<rparr>
          (mk_row [(''message_type'', ''D''), (''order_id'', ''1'')]) = Inr st1
        \<and> process_row example_builtins st1 (mk_row [(''message_type'', ''D''), (''order_id'', ''1'')]) = Inr st2
        \<and> orders st2 = orders st1 \<and> orders st1 = [])"
proof -
  have h: "row_get (mk_row [(''message_type'', ''D''), (''order_id'', ''1'')]) ''message_type'' PyNone = PyStr ''D''"
    by (simp add: row_get_def mk_row_def)
  from delete_idempotent [OF h, of example_builtins
      "\<lparr>orders = [(PyStr ''1'', \<lparr>symbol = ''ABC'', side = ''B'', price = 10, qty = 100, timestamp = 0\<rparr>)],
        snapshots_by_ticker = [], msg_count = 0\<rparr>"]
  show ?thesis using h
    by (auto simp add: process_row_def delete_order_def row_get_def mk_row_def)
qed

text \<open>A replace whose old id is not in the store changes nothing.\<close>

lemma replace_order_absent:
  "map_of os (row_get r ''old_order_id'' PyNone) = None \<Longrightarrow> replace_order B r os = os"
  by (simp add: replace_order_def Let_def)

text \<open>
  Claim C1. A replace whose old id is in the store and whose price text is not a
  number: the deletion of the old order has been done when \<^verbatim>\<open>float\<close> raises, the
  \<^verbatim>\<open>except\<close> clause swallows the error, and the new order is never stored. The
  store is left with the old order removed and the new one missing.
\<close>

theorem replace_malformed_price_drops_old_order:
  "process_row example_builtins
     \<lparr>orders = [(PyStr ''1'', \<lparr>symbol = ''ABC'', side = ''B'', price = 10, qty = 100, timestamp = 0\<rparr>)],
      snapshots_by_ticker = [], msg_count = 0\<rparr>
     (mk_row [(''message_type'', ''U''), (''old_order_id'', ''1''), (''order_id'', ''2''),
              (''price'', ''abc''), (''quantity'', ''200'')])
   = Inr \<lparr>orders = [], snapshots_by_ticker = [], msg_count = 1\<rparr>"
  by (simp add: process_row_def replace_order_def example_builtins_def mk_row_def row_get_def)

text \<open>
  Claim C3, as amended. For a row of type U whose old id is in the store and whose
  price and quantity cells convert where they are used: the store then has an entry
  for the new id with the symbol, side and timestamp of the old order; it has no
  entry for the old id when the new id differs from it; every other entry is as
  before. The price \<open>p\<close> is the converted price cell when that cell is a non-empty
  text other than \<^verbatim>\<open>0\<close>, and the old price when the cell is missing, \<^verbatim>\<open>None\<close>,
  empty or \<^verbatim>\<open>0\<close>. The quantity \<open>q\<close> is the converted quantity cell when that cell
  is a non-empty text, and the old quantity when the cell is \<^verbatim>\<open>None\<close> or empty.
\<close>

theorem replace_order_carries_forward:
  assumes "row_get r ''message_type'' PyNone = PyStr ''U''"
    and "map_of (orders st) (row_get r ''old_order_id'' PyNone) = Some old"
    and "(\<exists>s. r ''price'' = Some (PyStr s) \<and> s \<noteq> [] \<and> s \<noteq> ''0'' \<and> py_float B s = Some p)
         \<or> (r ''price'' \<in> {None, Some PyNone, Some (PyStr []), Some (PyStr ''0'')} \<and> p = price old)"
    and "(\<exists>s. r ''quantity'' = Some (PyStr s) \<and> s \<noteq> [] \<and> py_int B s = Some q)
         \<or> (r ''quantity'' \<in> {Some PyNone, Some (PyStr [])} \<and> q = qty old)"
  shows "\<exists>st'. process_row B st r = Inr st'
      \<and> map_of (orders st') (row_get r ''order_id'' PyNone)
          = Some \<lparr>symbol = symbol old, side = side old, price = p, qty = q, timestamp = timestamp old\<rparr>
      \<and> (row_get r ''order_id'' PyNone \<noteq> row_get r ''old_order_id'' PyNone
           \<longrightarrow> map_of (orders st') (row_get r ''old_order_id'' PyNone) = None)
      \<and> (\<forall>k. k \<noteq> row_get r ''old_order_id'' PyNone \<and> k \<noteq> row_get r ''order_id'' PyNone
           \<longrightarrow> map_of (orders st') k = map_of (orders st) k)"
proof -
  let ?pc = "row_get r ''price'' (PyStr ''0'')"
  let ?qc = "row_get r ''quantity'' (PyStr ''0'')"
  have P: "(case ?pc of PyStr s \<Rightarrow> if s \<noteq> [] \<and> s \<noteq> ''0'' then py_float B s else Some (price old)
            | PyNone \<Rightarrow> Some (price old)) = Some p"
    using assms(3) by (auto simp add: row_get_def)
  have Q: "int_if B ?qc (qty old) = Some q"
    using assms(4) by (auto simp add: row_get_def int_if_def)
  have R: "replace_order B r (orders st)
     = AList.update (row_get r ''order_id'' PyNone)
         \<lparr>symbol = symbol old, side = side old, price = p, qty = q, timestamp = timestamp old\<rparr>
         (AList.delete (row_get r ''old_order_id'' PyNone) (orders st))"
    using assms(2) P Q by (simp add: replace_order_def Let_def)
  show ?thesis
    using assms(1) R by (simp add: process_row_def Let_def update_conv' delete_conv')
qed

text \<open>
  Scenario C of the specification: order 1 is \<^verbatim>\<open>ABC\<close>, bid, 10.00, 100; the replace
  by order 2 has an empty price cell and the quantity 200.
\<close>

theorem replace_order_carries_forward_witness:
  "process_row example_builtins
     \<lparr>orders = [(PyStr ''1'', \<lparr>symbol = ''ABC'', side = ''B'', price = 10, qty = 100, timestamp = 0\<rparr>)],
      snapshots_by_ticker = [], msg_count = 0\<rparr>
     (mk_row [(''message_type'', ''U''), (''old_order_id'', ''1''), (''order_id'', ''2''),
              (''price'', ''''), (''quantity'', ''200'')])
   = Inr \<lparr>orders = [(PyStr ''2'', \<lparr>symbol = ''ABC'', side = ''B'', price = 10, qty = 200, timestamp = 0\<rparr>)],
          snapshots_by_ticker = [], msg_count = 1\<rparr>
   \<and> map_of [(PyStr ''2'', \<lparr>symbol = ''ABC'', side = ''B'', price = 10, qty = 200, timestamp = 0\<rparr>)] (PyStr ''1'') = None"
proof -
  let ?r = "mk_row [(''message_type'', ''U''), (''old_order_id'', ''1''), (''order_id'', ''2''),
              (''price'', ''''), (''quantity'', ''200'')]"
  let ?old = "\<lparr>symbol = ''ABC'', side = ''B'', price = 10, qty = 100, timestamp = 0\<rparr>"
  let ?st = "\<lparr>orders = [(PyStr ''1'', ?old)], snapshots_by_ticker = [], msg_count = 0\<rparr>"
  have h1: "row_get ?r ''message_type'' PyNone = PyStr ''U''"
    by (simp add: row_get_def mk_row_def)
  have h2: "map_of (orders ?st) (row_get ?r ''old_order_id'' PyNone) = Some ?old"
    by (simp add: row_get_def mk_row_def)
  have h3: "(\<exists>s. ?r ''price'' = Some (PyStr s) \<and> s \<noteq> [] \<and> s \<noteq> ''0''
                \<and> py_float example_builtins s = Some 10)
         \<or> (?r ''price'' \<in> {None, Some PyNone, Some (PyStr []), Some (PyStr ''0'')} \<and> 10 = price ?old)"
    by (simp add: mk_row_def)
  have h4: "(\<exists>s. ?r ''quantity'' = Some (PyStr s) \<and> s \<noteq> [] \<and> py_int example_builtins s = Some 200)
         \<or> (?r ''quantity'' \<in> {Some PyNone, Some (PyStr [])} \<and> 200 = qty ?old)"
    by (simp add: mk_row_def example_builtins_def)
  from replace_order_carries_forward [OF h1 h2 h3 h4]
  show ?thesis
    by (simp add: process_row_def replace_order_def example_builtins_def mk_row_def row_get_def int_if_def)
qed

text \<open>
  The claim as the specification words it fails where the new id is the old id: the
  store cannot both lose the old id and hold the new one, and the code keeps the entry.
\<close>

theorem replace_same_id_keeps_old_id:
  "process_row example_builtins
     \<lparr>orders = [(PyStr ''1'', \<lparr>symbol = ''ABC'', side = ''B'', price = 10, qty = 100, timestamp = 0\<rparr>)],
      snapshots_by_ticker = [], msg_count = 0\<rparr>
     (mk_row [(''message_type'', ''U''), (''old_order_id'', ''1''), (''order_id'', ''1''),
              (''price'', ''''), (''quantity'', ''200'')])
   = Inr \<lparr>orders = [(PyStr ''1'', \<lparr>symbol = ''ABC'', side = ''B'', price = 10, qty = 200, timestamp = 0\<rparr>)],
          snapshots_by_ticker = [], msg_count = 1\<rparr>"
  by (simp add: process_row_def replace_order_def example_builtins_def mk_row_def row_get_def int_if_def)

text \<open>
  An add whose symbol and side cells are texts, and whose id is missing or empty or
  whose symbol is empty after \<^verbatim>\<open>strip\<close>, leaves the store as it is.
\<close>

lemma add_order_dropped:
  assumes "row_get r ''symbol'' (PyStr '''') = PyStr s"
    and "row_get r ''side'' (PyStr ''B'') = PyStr d"
    and "\<not> truthy (row_get r ''order_id'' PyNone) \<or> py_strip B s = []"
  shows "add_order B r os = Inr os"
  using assms by (auto simp add: add_order_def Let_def)

text \<open>
  Claim C10. The add whose symbol is absent is not dropped when the line is short:
  with the header \<^verbatim>\<open>message_type,order_id,side,symbol\<close> and the line \<^verbatim>\<open>A,1,B\<close> the
  reader gives the symbol cell \<^verbatim>\<open>None\<close>, and \<^verbatim>\<open>row.get('symbol', '').strip()\<close>,
  which is outside the \<^verbatim>\<open>try\<close>, raises \<^verbatim>\<open>AttributeError\<close>.
\<close>

theorem add_order_short_row_raises:
  "process_row example_builtins
     \<lparr>orders = [], snapshots_by_ticker = [], msg_count = 0\<rparr>
     ((mk_row [(''message_type'', ''A''), (''order_id'', ''1''), (''side'', ''B'')])(''symbol'' \<mapsto> PyNone))
   = Inl AttributeError"
  by (simp add: process_row_def add_order_def example_builtins_def mk_row_def row_get_def)

section \<open>The order store: execute\<close>

lemma process_row_execute:
  "row_get r ''message_type'' PyNone = PyStr ''e'' \<Longrightarrow>
   process_row B st r = Inr (st\<lparr>msg_count := msg_count st + 1, orders := execute_order B r (orders st)\<rparr>)"
  by (simp add: process_row_def Let_def)

lemma execute_order_absent:
  "map_of os (row_get r ''order_id'' PyNone) = None \<Longrightarrow> execute_order B r os = os"
  by (simp add: execute_order_def Let_def)

lemma execute_order_present:
  assumes "map_of os (row_get r ''order_id'' PyNone) = Some ord"
    and "int_if B (row_get r ''quantity'' (PyStr ''0'')) 0 = Some n"
  shows "map_of (execute_order B r os) k =
    (if k = row_get r ''order_id'' PyNone
     then (if qty ord - n \<le> 0 then None else Some (ord\<lparr>qty := qty ord - n\<rparr>))
     else map_of os k)"
  using assms by (simp add: execute_order_def Let_def update_conv' delete_conv')

lemma executes_absent:
  assumes "list_all2 (is_execute B k) rows ns" and "map_of (orders st) k = None"
  shows "\<exists>st'. process_rows B st rows = Inr st' \<and> map_of (orders st') k = None"
  using assms
proof (induction rows ns arbitrary: st rule: list_all2_induct)
  case Nil
  then show ?case by simp
next
  case (Cons r rows n ns)
  from Cons.hyps(1) have e: "row_get r ''message_type'' PyNone = PyStr ''e''"
    and k: "row_get r ''order_id'' PyNone = k"
    by (simp_all add: is_execute_def)
  let ?st1 = "st\<lparr>msg_count := msg_count st + 1, orders := execute_order B r (orders st)\<rparr>"
  have "map_of (orders ?st1) k = None"
    using Cons.prems k by (simp add: execute_order_absent)
  from Cons.IH [OF this] show ?case
    by (simp add: process_row_execute [OF e])
qed

lemma executes_present:
  assumes "list_all2 (is_execute B k) rows ns" and "map_of (orders st) k = Some ord"
  shows "\<exists>st'. process_rows B st rows = Inr st'
     \<and> (map_of (orders st') k = None
        \<or> (map_of (orders st') k = Some (ord\<lparr>qty := qty ord - sum_list ns\<rparr>)
           \<and> (rows \<noteq> [] \<longrightarrow> 0 < qty ord - sum_list ns)))"
  using assms
proof (induction rows ns arbitrary: st ord rule: list_all2_induct)
  case Nil
  then show ?case by simp
next
  case (Cons r rows n ns)
  from Cons.hyps(1) have e: "row_get r ''message_type'' PyNone = PyStr ''e''"
    and k: "row_get r ''order_id'' PyNone = k"
    and n: "int_if B (row_get r ''quantity'' (PyStr ''0'')) 0 = Some n"
    by (simp_all add: is_execute_def)
  let ?st1 = "st\<lparr>msg_count := msg_count st + 1, orders := execute_order B r (orders st)\<rparr>"
  have step: "map_of (orders ?st1) k = (if qty ord - n \<le> 0 then None else Some (ord\<lparr>qty := qty ord - n\<rparr>))"
    using execute_order_present [of "orders st" r ord B n k] Cons.prems k n by simp
  show ?case
  proof (cases "qty ord - n \<le> 0")
    case True
    with step have "map_of (orders ?st1) k = None" by simp
    from executes_absent [OF Cons.hyps(2) this] show ?thesis
      by (auto simp add: process_row_execute [OF e])
  next
    case False
    with step have s: "map_of (orders ?st1) k = Some (ord\<lparr>qty := qty ord - n\<rparr>)" by simp
    from Cons.IH [OF s] obtain st' where
      run: "process_rows B ?st1 rows = Inr st'" and
      res: "map_of (orders st') k = None
        \<or> (map_of (orders st') k = Some (ord\<lparr>qty := qty ord - n - sum_list ns\<rparr>)
           \<and> (rows \<noteq> [] \<longrightarrow> 0 < qty ord - n - sum_list ns))"
      by auto
    have "rows = [] \<Longrightarrow> ns = []" using Cons.hyps(2) by simp
    with res False have "map_of (orders st') k = None
        \<or> (map_of (orders st') k = Some (ord\<lparr>qty := qty ord - sum_list (n # ns)\<rparr>)
           \<and> 0 < qty ord - sum_list (n # ns))"
      by (cases "rows = []") (auto simp add: algebra_simps)
    with run show ?thesis
      by (auto simp add: process_row_execute [OF e])
  qed
qed

text \<open>
  Claim C4. For a row of type e, with the executed quantity \<open>n\<close> read from the
  quantity cell: when the store has no order of that id the row changes nothing and
  raises nothing; when it has the order \<open>ord\<close>, the order's quantity becomes
  \<open>qty ord - n\<close> and the entry is removed exactly when that is zero or less, all
  other entries staying as they are. So after a sequence of such rows for the order
  \<open>k\<close> whose quantities sum to at least \<open>qty ord\<close> the store has no order \<open>k\<close>
  (for a sequence of at least one row, or an order whose quantity is positive).
\<close>

theorem execute_order_decrements:
  "(row_get r ''message_type'' PyNone = PyStr ''e''
      \<and> map_of (orders st) (row_get r ''order_id'' PyNone) = None
     \<longrightarrow> (\<exists>st'. process_row B st r = Inr st' \<and> orders st' = orders st))
   \<and> (row_get r ''message_type'' PyNone = PyStr ''e''
      \<and> map_of (orders st) (row_get r ''order_id'' PyNone) = Some ord
      \<and> int_if B (row_get r ''quantity'' (PyStr ''0'')) 0 = Some n
     \<longrightarrow> (\<exists>st'. process_row B st r = Inr st'
          \<and> map_of (orders st') (row_get r ''order_id'' PyNone)
              = (if qty ord - n \<le> 0 then None else Some (ord\<lparr>qty := qty ord - n\<rparr>))
          \<and> (\<forall>k'. k' \<noteq> row_get r ''order_id'' PyNone \<longrightarrow> map_of (orders st') k' = map_of (orders st) k')))
   \<and> (list_all2 (\<lambda>r n. row_get r ''message_type'' PyNone = PyStr ''e''
                      \<and> row_get r ''order_id'' PyNone = k
                      \<and> int_if B (row_get r ''quantity'' (PyStr ''0'')) 0 = Some n) rows ns
      \<and> map_of (orders st) k = Some ord \<and> qty ord \<le> sum_list ns \<and> (rows \<noteq> [] \<or> 0 < qty ord)
     \<longrightarrow> (\<exists>st'. process_rows B st rows = Inr st' \<and> map_of (orders st') k = None))"
proof (intro conjI impI)
  assume "row_get r ''message_type'' PyNone = PyStr ''e''
      \<and> map_of (orders st) (row_get r ''order_id'' PyNone) = None"
  then show "\<exists>st'. process_row B st r = Inr st' \<and> orders st' = orders st"
    by (simp add: process_row_execute execute_order_absent)
next
  assume a: "row_get r ''message_type'' PyNone = PyStr ''e''
      \<and> map_of (orders st) (row_get r ''order_id'' PyNone) = Some ord
      \<and> int_if B (row_get r ''quantity'' (PyStr ''0'')) 0 = Some n"
  then have "\<And>k'. map_of (execute_order B r (orders st)) k' =
    (if k' = row_get r ''order_id'' PyNone
     then (if qty ord - n \<le> 0 then None else Some (ord\<lparr>qty := qty ord - n\<rparr>))
     else map_of (orders st) k')"
    by (simp add: execute_order_present)
  with a show "\<exists>st'. process_row B st r = Inr st'
          \<and> map_of (orders st') (row_get r ''order_id'' PyNone)
              = (if qty ord - n \<le> 0 then None else Some (ord\<lparr>qty := qty ord - n\<rparr>))
          \<and> (\<forall>k'. k' \<noteq> row_get r ''order_id'' PyNone \<longrightarrow> map_of (orders st') k' = map_of (orders st) k')"
    by (simp add: process_row_execute)
next
  assume a: "list_all2 (\<lambda>r n. row_get r ''message_type'' PyNone = PyStr ''e''
                      \<and> row_get r ''order_id'' PyNone = k
                      \<and> int_if B (row_get r ''quantity'' (PyStr ''0'')) 0 = Some n) rows ns
      \<and> map_of (orders st) k = Some ord \<and> qty ord \<le> sum_list ns \<and> (rows \<noteq> [] \<or> 0 < qty ord)"
  then have l: "list_all2 (is_execute B k) rows ns"
    by (simp add: is_execute_def [abs_def])
  have "rows = [] \<Longrightarrow> ns = []" using l by simp
  with a executes_present [OF l, of st ord] show "\<exists>st'. process_rows B st rows = Inr st' \<and> map_of (orders st') k = None"
    by (cases "rows = []") auto
qed

text \<open>
  Scenarios A and D of the specification: order 1 has the quantity 100; an execute for
  the unknown id 999 changes nothing, an execute of 40 leaves 60, and the executes of 40
  and 60 remove the order.
\<close>

theorem execute_order_decrements_witness:
  "(\<exists>st'. process_row example_builtins
        \<lparr>orders = [(PyStr ''1'', \<lparr>symbol = ''ABC'', side = ''B'', price = 10, qty = 100, timestamp = 0\<rparr>)],
         snapshots_by_ticker = [], msg_count = 0\<rparr>
        (mk_row [(''message_type'', ''e''), (''order_id'', ''999''), (''quantity'', ''40'')]) = Inr st'
      \<and> orders st' = [(PyStr ''1'', \<lparr>symbol = ''ABC'', side = ''B'', price = 10, qty = 100, timestamp = 0\<rparr>)])
   \<and> (\<exists>st'. process_row example_builtins
        \<lparr>orders = [(PyStr ''1'', \<lparr>symbol = ''ABC'', side = ''B'', price = 10, qty = 100, timestamp = 0\<rparr>)],
         snapshots_by_ticker = [], msg_count = 0\<rparr>
        (mk_row [(''message_type'', ''e''), (''order_id'', ''1''), (''quantity'', ''40'')]) = Inr st'
      \<and> map_of (orders st') (PyStr ''1'')
          = Some \<lparr>symbol = ''ABC'', side = ''B'', price = 10, qty = 60, timestamp = 0\<rparr>)
   \<and> (\<exists>st'. process_rows example_builtins
        \<lparr>orders = [(PyStr ''1'', \<lparr>symbol = ''ABC'', side = ''B'', price = 10, qty = 100, timestamp = 0\<rparr>)],
         snapshots_by_ticker = [], msg_count = 0\<rparr>
        [mk_row [(''message_type'', ''e''), (''order_id'', ''1''), (''quantity'', ''40'')],
         mk_row [(''message_type'', ''e''), (''order_id'', ''1''), (''quantity'', ''60'')]] = Inr st'
      \<and> map_of (orders st') (PyStr ''1'') = None)"
proof -
  let ?ord = "\<lparr>symbol = ''ABC'', side = ''B'', price = 10, qty = 100, timestamp = 0\<rparr>"
  let ?st = "\<lparr>orders = [(PyStr ''1'', ?ord)], snapshots_by_ticker = [], msg_count = 0\<rparr>"
  let ?r999 = "mk_row [(''message_type'', ''e''), (''order_id'', ''999''), (''quantity'', ''40'')]"
  let ?r40 = "mk_row [(''message_type'', ''e''), (''order_id'', ''1''), (''quantity'', ''40'')]"
  let ?r60 = "mk_row [(''message_type'', ''e''), (''order_id'', ''1''), (''quantity'', ''60'')]"
  have cells: "row_get ?r999 ''message_type'' PyNone = PyStr ''e''"
    "row_get ?r999 ''order_id'' PyNone = PyStr ''999''"
    "row_get ?r40 ''message_type'' PyNone = PyStr ''e''"
    "row_get ?r40 ''order_id'' PyNone = PyStr ''1''"
    "row_get ?r60 ''message_type'' PyNone = PyStr ''e''"
    "row_get ?r60 ''order_id'' PyNone = PyStr ''1''"
    "int_if example_builtins (row_get ?r40 ''quantity'' (PyStr ''0'')) 0 = Some 40"
    "int_if example_builtins (row_get ?r60 ''quantity'' (PyStr ''0'')) 0 = Some 60"
    by (simp_all add: row_get_def mk_row_def int_if_def example_builtins_def)
  have a: "\<exists>st'. process_row example_builtins ?st ?r999 = Inr st' \<and> orders st' = orders ?st"
    using execute_order_decrements [where B = example_builtins and st = ?st and r = ?r999, THEN conjunct1]
    by (simp add: cells)
  have b: "\<exists>st'. process_row example_builtins ?st ?r40 = Inr st'
      \<and> map_of (orders st') (PyStr ''1'') = Some (?ord\<lparr>qty := 60\<rparr>)"
    using execute_order_decrements [where B = example_builtins and st = ?st and r = ?r40
        and ord = ?ord and n = 40, THEN conjunct2, THEN conjunct1]
    by (auto simp add: cells)
  have c: "\<exists>st'. process_rows example_builtins ?st [?r40, ?r60] = Inr st'
      \<and> map_of (orders st') (PyStr ''1'') = None"
    using execute_order_decrements [where B = example_builtins and st = ?st and rows = "[?r40, ?r60]"
        and ns = "[40, 60]" and k = "PyStr ''1''" and ord = ?ord, THEN conjunct2, THEN conjunct2]
    by (simp add: cells)
  from a b c show ?thesis by simp
qed

section \<open>The order store: quantities\<close>

lemma set_update_subset: "set (AList.update k v al) \<subseteq> insert (k, v) (set al)"
  by (induction al) auto

lemma set_delete_subset: "set (AList.delete k al) \<subseteq> set al"
  by (auto simp add: AList.delete_eq)

lemma positive_update:
  "quantities_positive os \<Longrightarrow> 0 < qty ord \<Longrightarrow> quantities_positive (AList.update k ord os)"
  using set_update_subset [of k ord os] by (fastforce simp add: quantities_positive_def)

lemma positive_delete:
  "quantities_positive os \<Longrightarrow> quantities_positive (AList.delete k os)"
  using set_delete_subset [of k os] by (fastforce simp add: quantities_positive_def)

lemma positive_lookup:
  "quantities_positive os \<Longrightarrow> map_of os k = Some ord \<Longrightarrow> 0 < qty ord"
  by (force simp add: quantities_positive_def dest: map_of_SomeD)

lemma add_order_positive:
  assumes "quantities_positive os" and "add_order B r os = Inr os'"
    and "\<forall>n. int_if B (row_get r ''quantity'' (PyStr ''0'')) 0 = Some n \<longrightarrow> 0 < n"
  shows "quantities_positive os'"
  using assms
  by (auto simp add: add_order_def Let_def positive_update split: sum.splits option.splits if_splits)

lemma execute_order_positive:
  assumes "quantities_positive os"
  shows "quantities_positive (execute_order B r os)"
  using assms
  by (auto simp add: execute_order_def Let_def positive_update positive_delete delete_update_same
      split: option.splits)

lemma delete_order_positive:
  "quantities_positive os \<Longrightarrow> quantities_positive (delete_order r os)"
  by (simp add: delete_order_def Let_def positive_delete)

lemma replace_order_positive:
  assumes "quantities_positive os"
    and "\<forall>s n. row_get r ''quantity'' (PyStr ''0'') = PyStr s \<and> s \<noteq> [] \<and> py_int B s = Some n \<longrightarrow> 0 < n"
  shows "quantities_positive (replace_order B r os)"
proof (cases "map_of os (row_get r ''old_order_id'' PyNone)")
  case None
  then show ?thesis using assms(1) by (simp add: replace_order_def Let_def)
next
  case (Some old)
  have old: "0 < qty old" using assms(1) Some by (rule positive_lookup)
  have q: "\<And>q. int_if B (row_get r ''quantity'' (PyStr ''0'')) (qty old) = Some q \<Longrightarrow> 0 < q"
    using assms(2) old by (auto simp add: int_if_def split: pyval.splits if_splits)
  show ?thesis
    using Some assms(1) q
    by (auto simp add: replace_order_def Let_def positive_update positive_delete split: option.splits)
qed

lemma process_row_positive:
  assumes "quantities_positive (orders st)" and "process_row B st r = Inr st'"
    and "quantity_positive_row B r"
  shows "quantities_positive (orders st')"
proof -
  let ?t = "row_get r ''message_type'' PyNone"
  have a: "?t = PyStr ''A'' \<Longrightarrow>
      \<forall>n. int_if B (row_get r ''quantity'' (PyStr ''0'')) 0 = Some n \<longrightarrow> 0 < n"
    using assms(3) unfolding quantity_positive_row_def by blast
  have u: "?t = PyStr ''U'' \<Longrightarrow>
      \<forall>s n. row_get r ''quantity'' (PyStr ''0'') = PyStr s \<and> s \<noteq> [] \<and> py_int B s = Some n \<longrightarrow> 0 < n"
    using assms(3) unfolding quantity_positive_row_def by blast
  consider (A) "?t = PyStr ''A''" | (E) "?t = PyStr ''e''" | (D) "?t = PyStr ''D''"
    | (U) "?t = PyStr ''U''" | (T) "?t = PyStr ''T''"
    | (other) "?t \<noteq> PyStr ''A''" "?t \<noteq> PyStr ''e''" "?t \<noteq> PyStr ''D''" "?t \<noteq> PyStr ''U''" "?t \<noteq> PyStr ''T''"
    by blast
  then show ?thesis
  proof cases
    case A
    with assms(2) obtain os' where "add_order B r (orders st) = Inr os'" and "orders st' = os'"
      by (auto simp add: process_row_def Let_def split: sum.splits)
    with assms(1) a [OF A] show ?thesis by (auto intro: add_order_positive)
  next
    case E
    with assms(1,2) show ?thesis
      by (auto simp add: process_row_def Let_def execute_order_positive)
  next
    case D
    with assms(1,2) show ?thesis
      by (auto simp add: process_row_def Let_def delete_order_positive)
  next
    case U
    with assms(2) have "orders st' = replace_order B r (orders st)"
      by (auto simp add: process_row_def Let_def)
    with assms(1) u [OF U] show ?thesis by (simp add: replace_order_positive)
  next
    case T
    with assms(1,2) show ?thesis
      by (auto simp add: process_row_def Let_def split: sum.splits)
  next
    case other
    with assms(1,2) show ?thesis
      by (auto simp add: process_row_def Let_def)
  qed
qed

lemma process_rows_positive:
  assumes "quantities_positive (orders st)" and "process_rows B st rows = Inr st'"
    and "\<forall>r \<in> set rows. quantity_positive_row B r"
  shows "quantities_positive (orders st')"
  using assms
proof (induction rows arbitrary: st)
  case Nil
  then show ?case by simp
next
  case (Cons r rows)
  from Cons.prems(2) obtain st1 where s1: "process_row B st r = Inr st1"
    and rest: "process_rows B st1 rows = Inr st'"
    by (auto split: sum.splits)
  have r: "quantity_positive_row B r" and rows: "\<forall>r \<in> set rows. quantity_positive_row B r"
    using Cons.prems(3) by simp_all
  have "quantities_positive (orders st1)"
    using Cons.prems(1) s1 r by (rule process_row_positive)
  then show ?case using rest rows by (rule Cons.IH)
qed

text \<open>
  Claim C2, as amended. From the empty store, after rows in which every add has a
  quantity that, when it converts, is positive (an empty quantity cell counts as 0) and
  every replace has a non-empty quantity cell that, when it converts, is positive, every
  order of the store has a quantity above zero: an execute that brings a quantity to
  zero or less removes the entry in the same step.
\<close>

theorem quantities_stay_positive:
  assumes "build_level2_simple B rows = Inr st"
    and "\<forall>r \<in> set rows.
          (row_get r ''message_type'' PyNone = PyStr ''A'' \<longrightarrow>
             (\<forall>n. int_if B (row_get r ''quantity'' (PyStr ''0'')) 0 = Some n \<longrightarrow> 0 < n))
        \<and> (row_get r ''message_type'' PyNone = PyStr ''U'' \<longrightarrow>
             (\<forall>s n. row_get r ''quantity'' (PyStr ''0'') = PyStr s \<and> s \<noteq> [] \<and> py_int B s = Some n
                \<longrightarrow> 0 < n))"
  shows "\<forall>ord \<in> snd ` set (orders st). 0 < qty ord"
proof -
  have "quantities_positive (orders \<lparr>orders = [], snapshots_by_ticker = [], msg_count = 0\<rparr>)"
    by (simp add: quantities_positive_def)
  moreover have "process_rows B \<lparr>orders = [], snapshots_by_ticker = [], msg_count = 0\<rparr> rows = Inr st"
    using assms(1) by (simp add: build_level2_simple_def)
  moreover have "\<forall>r \<in> set rows. quantity_positive_row B r"
    using assms(2) unfolding quantity_positive_row_def .
  ultimately have "quantities_positive (orders st)"
    by (rule process_rows_positive)
  then show ?thesis by (simp add: quantities_positive_def)
qed

text \<open>Scenario A of the specification: an add of 100 and an execute of 40 leave 60.\<close>

theorem quantities_stay_positive_witness:
  "build_level2_simple example_builtins
     [mk_row [(''message_type'', ''A''), (''order_id'', ''1''), (''symbol'', ''ABC''), (''side'', ''B''),
              (''price'', ''10.00''), (''quantity'', ''100''), (''timestamp'', ''0'')],
      mk_row [(''message_type'', ''e''), (''order_id'', ''1''), (''quantity'', ''40'')]]
   = Inr \<lparr>orders = [(PyStr ''1'', \<lparr>symbol = ''ABC'', side = ''B'', price = 10, qty = 60, timestamp = 0\<rparr>)],
          snapshots_by_ticker = [], msg_count = 2\<rparr>
   \<and> 0 < qty \<lparr>symbol = ''ABC'', side = ''B'', price = 10, qty = 60, timestamp = 0\<rparr>"
proof -
  let ?a = "mk_row [(''message_type'', ''A''), (''order_id'', ''1''), (''symbol'', ''ABC''), (''side'', ''B''),
              (''price'', ''10.00''), (''quantity'', ''100''), (''timestamp'', ''0'')]"
  let ?e = "mk_row [(''message_type'', ''e''), (''order_id'', ''1''), (''quantity'', ''40'')]"
  let ?st = "\<lparr>orders = [(PyStr ''1'', \<lparr>symbol = ''ABC'', side = ''B'', price = 10, qty = 60, timestamp = 0\<rparr>)],
          snapshots_by_ticker = [], msg_count = 2\<rparr>"
  have run: "build_level2_simple example_builtins [?a, ?e] = Inr ?st"
    by (simp add: build_level2_simple_def process_row_def add_order_def execute_order_def
        example_builtins_def mk_row_def row_get_def int_if_def float_if_def)
  have rows: "\<forall>r \<in> set [?a, ?e].
          (row_get r ''message_type'' PyNone = PyStr ''A'' \<longrightarrow>
             (\<forall>n. int_if example_builtins (row_get r ''quantity'' (PyStr ''0'')) 0 = Some n \<longrightarrow> 0 < n))
        \<and> (row_get r ''message_type'' PyNone = PyStr ''U'' \<longrightarrow>
             (\<forall>s n. row_get r ''quantity'' (PyStr ''0'') = PyStr s \<and> s \<noteq> []
                \<and> py_int example_builtins s = Some n \<longrightarrow> 0 < n))"
    by (simp add: example_builtins_def mk_row_def row_get_def int_if_def)
  from quantities_stay_positive [OF run rows] run show ?thesis by simp
qed

text \<open>
  The claim as the specification words it fails for an add with the quantity 0: the
  order is stored with the quantity 0.
\<close>

theorem add_zero_quantity_is_stored:
  "build_level2_simple example_builtins
     [mk_row [(''message_type'', ''A''), (''order_id'', ''1''), (''symbol'', ''ABC''), (''side'', ''B''),
              (''price'', ''10.00''), (''quantity'', ''0''), (''timestamp'', ''0'')]]
   = Inr \<lparr>orders = [(PyStr ''1'', \<lparr>symbol = ''ABC'', side = ''B'', price = 10, qty = 0, timestamp = 0\<rparr>)],
          snapshots_by_ticker = [], msg_count = 1\<rparr>"
  by (simp add: build_level2_simple_def process_row_def add_order_def
      example_builtins_def mk_row_def row_get_def int_if_def float_if_def)

section \<open>Level 2 snapshots: ordering, merging and truncation\<close>

































section \<open>The message decoders never raise\<close>


























section \<open>Prices are rounded floats\<close>





















end
